theory Spec2Isabelle
  imports Main "HOL-Library.AList"
begin

section \<open>Python values\<close>

text \<open>
  The module handles a flat parameter dictionary and a decoded JSON body. Both hold Python
  objects, modelled by one datatype; a dictionary is an association list with string keys in
  insertion order. No parameter of the module is a floating point number and no operation
  looks at one in a response, so they are left out.
\<close>

datatype pyval =
    PNone
  | PBool bool
  | PInt int
  | PStr string
  | PList "pyval list"
  | PDict "(string \<times> pyval) list"

datatype py_error = KeyError | AttributeError | TypeError | IndexError

type_synonym dict = "(string \<times> pyval) list"

subsection \<open>Strings\<close>

text \<open>\<^verbatim>\<open>sep.join(xs)\<close> for a list of strings.\<close>

fun join :: "string \<Rightarrow> string list \<Rightarrow> string" where
  "join sep [] = []"
| "join sep [x] = x"
| "join sep (x # y # ys) = x @ sep @ join sep (y # ys)"

text \<open>
  \<^verbatim>\<open>s.split(c)\<close> for a one-character separator: every occurrence of the separator cuts,
  empty pieces are kept, and the empty string gives one empty piece.
\<close>

fun str_split :: "char \<Rightarrow> string \<Rightarrow> string list" where
  "str_split c [] = [[]]"
| "str_split c (x # xs) =
     (if x = c then [] # str_split c xs
      else (case str_split c xs of
              [] \<Rightarrow> [[x]]
            | w # ws \<Rightarrow> (x # w) # ws))"

text \<open>Decimal text of an integer, as \<^verbatim>\<open>str\<close> and \<^verbatim>\<open>format\<close> print it.\<close>

definition digit_char :: "nat \<Rightarrow> char" where
  "digit_char d = ''0123456789abcdef'' ! d"

fun str_nat :: "nat \<Rightarrow> string" where
  "str_nat n = (if n < 10 then [digit_char n] else str_nat (n div 10) @ [digit_char (n mod 10)])"

declare str_nat.simps [simp del]

definition str_int :: "int \<Rightarrow> string" where
  "str_int i = (if i < 0 then CHR ''-'' # str_nat (nat (- i)) else str_nat (nat i))"

text \<open>
  \<^verbatim>\<open>repr\<close> of a string: single quotes unless the text holds a single quote and no double
  quote; backslash, the chosen quote, tab, newline and carriage return are escaped, other
  control characters are printed as \<^verbatim>\<open>\xNN\<close>. Bytes from 0x80 on (the UTF-8 encoding of
  non-ASCII text) are kept as they are.
\<close>

definition repr_char :: "char \<Rightarrow> char \<Rightarrow> string" where
  "repr_char q c =
     (if c = CHR 0x5C then [CHR 0x5C, CHR 0x5C]
      else if c = q then [CHR 0x5C, q]
      else if c = CHR 0x09 then [CHR 0x5C, CHR ''t'']
      else if c = CHR 0x0A then [CHR 0x5C, CHR ''n'']
      else if c = CHR 0x0D then [CHR 0x5C, CHR ''r'']
      else if of_char c < (32::nat) \<or> c = CHR 0x7F
        then [CHR 0x5C, CHR ''x'', digit_char (of_char c div 16), digit_char (of_char c mod 16)]
      else [c])"

definition repr_str :: "string \<Rightarrow> string" where
  "repr_str s =
     (let q = (if CHR 0x27 \<in> set s \<and> CHR 0x22 \<notin> set s then CHR 0x22 else CHR 0x27)
      in q # concat (map (repr_char q) s) @ [q])"

fun py_repr :: "pyval \<Rightarrow> string" where
  "py_repr PNone = ''None''"
| "py_repr (PBool b) = (if b then ''True'' else ''False'')"
| "py_repr (PInt i) = str_int i"
| "py_repr (PStr s) = repr_str s"
| "py_repr (PList xs) = ''['' @ join '', '' (map py_repr xs) @ '']''"
| "py_repr (PDict kvs) =
     ''{'' @ join '', '' (map (\<lambda>kv. repr_str (fst kv) @ '': '' @ py_repr (snd kv)) kvs) @ ''}''"

text \<open>What \<^verbatim>\<open>"{0}".format(v)\<close> prints: the text itself for a string, the \<^verbatim>\<open>repr\<close> otherwise.\<close>

definition py_str :: "pyval \<Rightarrow> string" where
  "py_str v = (case v of PStr s \<Rightarrow> s | _ \<Rightarrow> py_repr v)"

text \<open>
  \<^verbatim>\<open>sep.join(v)\<close> for any object: a list must hold strings only, a string is iterated
  character by character, a dictionary by its keys; anything else is not iterable.
\<close>

definition is_str :: "pyval \<Rightarrow> bool" where
  "is_str v = (case v of PStr _ \<Rightarrow> True | _ \<Rightarrow> False)"

definition the_str :: "pyval \<Rightarrow> string" where
  "the_str v = (case v of PStr s \<Rightarrow> s | _ \<Rightarrow> [])"

definition py_join :: "string \<Rightarrow> pyval \<Rightarrow> py_error + string" where
  "py_join sep v =
     (case v of
        PList xs \<Rightarrow> if list_all is_str xs then Inr (join sep (map the_str xs)) else Inl TypeError
      | PStr s \<Rightarrow> Inr (join sep (map (\<lambda>c. [c]) s))
      | PDict kvs \<Rightarrow> Inr (join sep (map fst kvs))
      | _ \<Rightarrow> Inl TypeError)"

subsection \<open>Dictionaries\<close>

text \<open>\<^verbatim>\<open>d.get(k)\<close> with Python's \<^verbatim>\<open>None\<close> for a missing key, and \<^verbatim>\<open>d.get(k, dflt)\<close>.\<close>

definition dict_get :: "dict \<Rightarrow> string \<Rightarrow> pyval" where
  "dict_get d k = (case map_of d k of None \<Rightarrow> PNone | Some v \<Rightarrow> v)"

definition dict_get_default :: "dict \<Rightarrow> string \<Rightarrow> pyval \<Rightarrow> pyval" where
  "dict_get_default d k dflt = (case map_of d k of None \<Rightarrow> dflt | Some v \<Rightarrow> v)"

text \<open>\<^verbatim>\<open>del d[k]\<close> and \<^verbatim>\<open>d.pop(k)\<close> raise \<^verbatim>\<open>KeyError\<close> on a missing key.\<close>

definition dict_del :: "string \<Rightarrow> dict \<Rightarrow> py_error + dict" where
  "dict_del k d = (case map_of d k of None \<Rightarrow> Inl KeyError | Some _ \<Rightarrow> Inr (AList.delete k d))"

definition dict_pop :: "string \<Rightarrow> dict \<Rightarrow> py_error + pyval \<times> dict" where
  "dict_pop k d = (case map_of d k of None \<Rightarrow> Inl KeyError | Some v \<Rightarrow> Inr (v, AList.delete k d))"

text \<open>\<^verbatim>\<open>v.get(k)\<close> on an arbitrary object: only a dictionary has the method.\<close>

definition py_get :: "pyval \<Rightarrow> string \<Rightarrow> py_error + pyval" where
  "py_get v k = (case v of PDict d \<Rightarrow> Inr (dict_get d k) | _ \<Rightarrow> Inl AttributeError)"

text \<open>\<^verbatim>\<open>v.split(c)\<close> on an arbitrary object: only a string has the method.\<close>

definition py_split :: "pyval \<Rightarrow> char \<Rightarrow> py_error + string list" where
  "py_split v c = (case v of PStr s \<Rightarrow> Inr (str_split c s) | _ \<Rightarrow> Inl AttributeError)"

text \<open>\<^verbatim>\<open>xs[i]\<close> for a non-negative index.\<close>

definition py_index :: "'a list \<Rightarrow> nat \<Rightarrow> py_error + 'a" where
  "py_index xs i = (if i < length xs then Inr (xs ! i) else Inl IndexError)"

section \<open>The module and its collaborators\<close>

text \<open>
  \<^verbatim>\<open>AnsibleModule\<close> as the three operations use it: the parameter dictionary and the
  check-mode flag. \<^verbatim>\<open>exit_json\<close> and \<^verbatim>\<open>fail_json\<close> print the result and end the process, so
  each is the final outcome of the invocation; an uncaught exception is a third way to end,
  and returning from \<^verbatim>\<open>run\<close> without any of them a fourth. \<open>Rejected\<close> is the failure that
  \<^verbatim>\<open>AnsibleModule\<close> itself reports when the arguments do not pass its validation.
\<close>

record ansible_module =
  params :: dict
  check_mode :: bool

record result =
  changed :: bool
  msg :: "string option"
  data :: "pyval option"

datatype outcome =
    ExitJson result
  | FailJson result
  | Raised py_error
  | Returned
  | Rejected

text \<open>
  The HTTP helper is a collaborator outside this file. It is taken as a function from the
  request issued to the response received; a response carries the decoded body
  (\<^verbatim>\<open>response.json\<close>) and the status (\<^verbatim>\<open>response.status_code\<close>). Every operation returns its
  outcome together with the list of requests it has issued. The constructor of the helper,
  called in \<^verbatim>\<open>Checks.__init__\<close>, is taken to issue no request and to leave the parameters as
  they are.
\<close>

datatype request =
    POST string "pyval option"
  | DELETE string

record response =
  json :: pyval
  status_code :: int

type_synonym rest = "request \<Rightarrow> response"

record checks =
  module :: ansible_module
  api_token :: pyval

text \<open>\<^verbatim>\<open>Checks.__init__\<close>: the token is popped from the parameters.\<close>

definition Checks_init :: "ansible_module \<Rightarrow> py_error + checks" where
  "Checks_init m =
     (case dict_pop ''api_token'' (params m) of
        Inl e \<Rightarrow> Inl e
      | Inr (tok, ps) \<Rightarrow> Inr \<lparr>module = m\<lparr>params := ps\<rparr>, api_token = tok\<rparr>)"

text \<open>The identifier of a check: \<^verbatim>\<open>json_data.get("ping_url").split("/")[3]\<close>.\<close>

definition ping_uuid :: "pyval \<Rightarrow> py_error + string" where
  "ping_uuid json_data =
     (case py_get json_data ''ping_url'' of
        Inl e \<Rightarrow> Inl e
      | Inr url \<Rightarrow>
          (case py_split url CHR ''/'' of
             Inl e \<Rightarrow> Inl e
           | Inr parts \<Rightarrow> py_index parts 3))"

text \<open>
  \<^verbatim>\<open>Checks.create\<close>. The identifier is computed between the request and the test of the
  status. Each branch of that test ends the process, so the \<^verbatim>\<open>exit_json\<close> that follows the
  test in the source is never reached and has no counterpart here.
\<close>

definition create :: "rest \<Rightarrow> checks \<Rightarrow> outcome \<times> request list" where
  "create rest self =
     (if check_mode (module self)
      then (ExitJson \<lparr>changed = False, msg = None, data = Some (PDict [])\<rparr>, [])
      else
        (case dict_del ''uuid'' (params (module self)) of
           Inl e \<Rightarrow> (Raised e, [])
         | Inr request_params \<Rightarrow>
             (case py_join '' '' (dict_get_default (params (module self)) ''tags'' (PList [])) of
                Inl e \<Rightarrow> (Raised e, [])
              | Inr tags \<Rightarrow>
                  (let request_params = AList.update ''tags'' (PStr tags) request_params;
                       req = POST ''checks/'' (Some (PDict request_params));
                       resp = rest req;
                       json_data = json resp;
                       code = status_code resp
                   in (case ping_uuid json_data of
                         Inl e \<Rightarrow> (Raised e, [req])
                       | Inr uuid \<Rightarrow>
                           if code = 200 then
                             (ExitJson \<lparr>changed = True,
                                 msg = Some (''Existing check '' @ uuid @ '' found and updated''),
                                 data = Some json_data\<rparr>, [req])
                           else if code = 201 then
                             (ExitJson \<lparr>changed = True,
                                 msg = Some (''New check '' @ uuid @ '' created''),
                                 data = Some json_data\<rparr>, [req])
                           else
                             (FailJson \<lparr>changed = False,
                                 msg = Some (''Failed to create or update delete check [HTTP ''
                                             @ str_int code @ '']''),
                                 data = None\<rparr>, [req]))))))"

text \<open>\<^verbatim>\<open>Checks.delete\<close>\<close>

definition delete :: "rest \<Rightarrow> checks \<Rightarrow> outcome \<times> request list" where
  "delete rest self =
     (if check_mode (module self)
      then (ExitJson \<lparr>changed = False, msg = None, data = Some (PDict [])\<rparr>, [])
      else
        (let uuid = py_str (dict_get (params (module self)) ''uuid'');
             req = DELETE (''checks/'' @ uuid);
             code = status_code (rest req)
         in if code = 200 then
              (ExitJson \<lparr>changed = True,
                  msg = Some (''Check '' @ uuid @ '' successfully deleted''), data = None\<rparr>, [req])
            else if code = 404 then
              (ExitJson \<lparr>changed = False,
                  msg = Some (''Check '' @ uuid @ '' not found''), data = None\<rparr>, [req])
            else
              (FailJson \<lparr>changed = False,
                  msg = Some (''Failed delete check '' @ uuid @ '' [HTTP '' @ str_int code @ '']''),
                  data = None\<rparr>, [req])))"

text \<open>\<^verbatim>\<open>Checks.pause\<close>\<close>

definition pause :: "rest \<Rightarrow> checks \<Rightarrow> outcome \<times> request list" where
  "pause rest self =
     (if check_mode (module self)
      then (ExitJson \<lparr>changed = False, msg = None, data = Some (PDict [])\<rparr>, [])
      else
        (let uuid = py_str (dict_get (params (module self)) ''uuid'');
             req = POST (''checks/'' @ uuid @ ''/pause'') None;
             code = status_code (rest req)
         in if code = 200 then
              (ExitJson \<lparr>changed = True,
                  msg = Some (''Check '' @ uuid @ '' successfully paused''), data = None\<rparr>, [req])
            else if code = 404 then
              (ExitJson \<lparr>changed = False,
                  msg = Some (''Check '' @ uuid @ '' not found''), data = None\<rparr>, [req])
            else
              (FailJson \<lparr>changed = False,
                  msg = Some (''Failed delete check '' @ uuid @ '' [HTTP '' @ str_int code @ '']''),
                  data = None\<rparr>, [req])))"

text \<open>\<^verbatim>\<open>run\<close>: the state is popped, the \<^verbatim>\<open>Checks\<close> object built, and one operation chosen.\<close>

definition run :: "rest \<Rightarrow> ansible_module \<Rightarrow> outcome \<times> request list" where
  "run rest m =
     (case dict_pop ''state'' (params m) of
        Inl e \<Rightarrow> (Raised e, [])
      | Inr (state, ps) \<Rightarrow>
          (case Checks_init (m\<lparr>params := ps\<rparr>) of
             Inl e \<Rightarrow> (Raised e, [])
           | Inr self \<Rightarrow>
               if state = PStr ''present'' then create rest self
               else if state = PStr ''absent'' then delete rest self
               else if state = PStr ''pause'' then pause rest self
               else (Returned, [])))"

text \<open>
  The \<^verbatim>\<open>Checks\<close> object that \<^verbatim>\<open>run\<close> works on when both parameters it pops are there: the
  module has lost \<open>state\<close> and \<open>api_token\<close>.
\<close>

definition checks_of :: "ansible_module \<Rightarrow> pyval \<Rightarrow> checks" where
  "checks_of m tok =
     \<lparr>module = m\<lparr>params := AList.delete ''api_token'' (AList.delete ''state'' (params m))\<rparr>,
      api_token = tok\<rparr>"

section \<open>Argument handling\<close>

text \<open>
  \<^verbatim>\<open>main\<close> builds the argument specification and hands it to \<^verbatim>\<open>AnsibleModule\<close> together
  with \<^verbatim>\<open>required_if\<close>. The specification returned by
  \<^verbatim>\<open>HealthchecksioHelper.healthchecksio_argument_spec()\<close> lives outside this file and is a
  parameter, \<open>helper_spec\<close>.
\<close>

record argspec =
  arg_type :: string
  arg_default :: pyval
  arg_choices :: "pyval list option"

type_synonym spec = "(string \<times> argspec) list"

definition arg :: "string \<Rightarrow> pyval \<Rightarrow> argspec" where
  "arg ty dflt = \<lparr>arg_type = ty, arg_default = dflt, arg_choices = None\<rparr>"

definition argument_spec :: "spec \<Rightarrow> spec" where
  "argument_spec helper_spec =
     foldl (\<lambda>sp ka. AList.update (fst ka) (snd ka) sp) helper_spec
       [(''state'', \<lparr>arg_type = ''str'', arg_default = PStr ''present'',
                     arg_choices = Some [PStr ''present'', PStr ''absent'', PStr ''pause'']\<rparr>),
        (''name'', arg ''str'' (PStr [])),
        (''tags'', arg ''list'' (PList [])),
        (''desc'', arg ''str'' (PStr [])),
        (''timeout'', arg ''int'' (PInt 86400)),
        (''grace'', arg ''int'' (PInt 3600)),
        (''schedule'', arg ''str'' (PStr ''* * * * *'')),
        (''tz'', arg ''str'' (PStr ''UTC'')),
        (''manual_resume'', arg ''bool'' (PBool False)),
        (''methods'', arg ''str'' (PStr [])),
        (''channels'', arg ''str'' (PStr [])),
        (''unique'', arg ''list'' (PList [])),
        (''uuid'', arg ''str'' (PStr []))]"

definition required_if :: "(string \<times> pyval \<times> string list) list" where
  "required_if = [(''state'', PStr ''absent'', [''uuid'']), (''state'', PStr ''pause'', [''uuid''])]"

text \<open>
  \<^verbatim>\<open>AnsibleModule\<close> belongs to ansible-core. The steps of its argument validation that decide
  what reaches \<^verbatim>\<open>run\<close> are modelled in ansible-core's order:
  \<^enum> defaults, first pass: a parameter that the task does not give and whose specification has
    a default other than \<^verbatim>\<open>None\<close> is set to that default;
  \<^enum> \<^verbatim>\<open>choices\<close>: a given value must be one of the choices;
  \<^enum> \<^verbatim>\<open>required_if\<close>: when the key has the value, every required name must be a key of the
    parameters (ansible-core counts keys, \<^verbatim>\<open>count_terms\<close>, and does not look at the values);
  \<^enum> defaults, second pass: every parameter still absent is set to its default, \<^verbatim>\<open>None\<close>
    included.

  Aliases, environment fallbacks, the conversion of values to the declared type and the check
  for unknown parameters are not modelled: the arguments are taken to carry declared names and
  values of the declared types.
\<close>

definition set_defaults :: "bool \<Rightarrow> spec \<Rightarrow> dict \<Rightarrow> dict" where
  "set_defaults set_default sp parameters =
     foldl (\<lambda>ps ka.
              if map_of ps (fst ka) = None
              then (if arg_default (snd ka) = PNone
                    then (if set_default then ps @ [(fst ka, PNone)] else ps)
                    else ps @ [(fst ka, arg_default (snd ka))])
              else ps)
       parameters sp"

definition check_choices :: "spec \<Rightarrow> dict \<Rightarrow> bool" where
  "check_choices sp parameters =
     list_all (\<lambda>ka. case arg_choices (snd ka) of
                        None \<Rightarrow> True
                      | Some cs \<Rightarrow>
                          (case map_of parameters (fst ka) of
                             None \<Rightarrow> True
                           | Some v \<Rightarrow> v \<in> set cs)) sp"

definition check_required_if :: "(string \<times> pyval \<times> string list) list \<Rightarrow> dict \<Rightarrow> bool" where
  "check_required_if reqs parameters =
     list_all (\<lambda>req. if map_of parameters (fst req) = Some (fst (snd req))
                      then list_all (\<lambda>name. map_of parameters name \<noteq> None) (snd (snd req))
                      else True) reqs"

definition AnsibleModule ::
    "spec \<Rightarrow> (string \<times> pyval \<times> string list) list \<Rightarrow> dict \<Rightarrow> bool \<Rightarrow> ansible_module option" where
  "AnsibleModule sp reqs args check =
     (let ps = set_defaults False sp args
      in if check_choices sp ps \<and> check_required_if reqs ps
         then Some \<lparr>params = set_defaults True sp ps, check_mode = check\<rparr>
         else None)"

text \<open>\<^verbatim>\<open>main\<close>, for the task arguments \<open>args\<close> and the check-mode flag of the run.\<close>

definition main :: "spec \<Rightarrow> rest \<Rightarrow> dict \<Rightarrow> bool \<Rightarrow> outcome \<times> request list" where
  "main helper_spec rest args check =
     (case AnsibleModule (argument_spec helper_spec) required_if args check of
        None \<Rightarrow> (Rejected, [])
      | Some m \<Rightarrow> run rest m)"

section \<open>Example invocations\<close>

text \<open>
  The parameters that reach \<^verbatim>\<open>run\<close> for a task that gives \<open>state\<close>, \<open>name\<close>, \<open>timeout\<close> and
  \<open>uuid\<close> and leaves every other option at its default.
\<close>

definition task_params :: "string \<Rightarrow> string \<Rightarrow> int \<Rightarrow> string \<Rightarrow> dict" where
  "task_params st nm tmo uu =
     [(''state'', PStr st), (''api_token'', PStr ''secret''), (''name'', PStr nm),
      (''tags'', PList []), (''desc'', PStr []), (''timeout'', PInt tmo), (''grace'', PInt 3600),
      (''schedule'', PStr ''* * * * *''), (''tz'', PStr ''UTC''), (''manual_resume'', PBool False),
      (''methods'', PStr []), (''channels'', PStr []), (''unique'', PList []),
      (''uuid'', PStr uu)]"

definition nightly_backup :: ansible_module where
  "nightly_backup = \<lparr>params = task_params ''present'' ''nightly-backup'' 86400 [], check_mode = False\<rparr>"

text \<open>
  A remote that answers every request with the same response, as the mocked remote of a test
  does.
\<close>

definition remote_returning :: "response \<Rightarrow> rest" where
  "remote_returning resp = (\<lambda>req. resp)"

definition created_body :: pyval where
  "created_body = PDict [(''ping_url'', PStr ''https://x/ping/UUID-1/'')]"

definition delete_abc :: ansible_module where
  "delete_abc = \<lparr>params = task_params ''absent'' [] 86400 ''abc-123'', check_mode = False\<rparr>"

definition pause_abc :: ansible_module where
  "pause_abc = \<lparr>params = task_params ''pause'' [] 86400 ''abc-123'', check_mode = False\<rparr>"

text \<open>The body of a successful answer of the hosted service, and the body of a refusal.\<close>

definition updated_body :: pyval where
  "updated_body =
     PDict [(''name'', PStr ''nightly-backup''), (''ping_url'', PStr ''https://hc-ping.com/UUID-1''),
            (''status'', PStr ''new'')]"

definition error_body :: pyval where
  "error_body = PDict [(''error'', PStr ''wrong api key'')]"

text \<open>The request body that the nightly-backup task sends.\<close>

definition nightly_backup_body :: dict where
  "nightly_backup_body =
     [(''name'', PStr ''nightly-backup''), (''tags'', PStr []), (''desc'', PStr []),
      (''timeout'', PInt 86400), (''grace'', PInt 3600), (''schedule'', PStr ''* * * * *''),
      (''tz'', PStr ''UTC''), (''manual_resume'', PBool False), (''methods'', PStr []),
      (''channels'', PStr []), (''unique'', PList [])]"

text \<open>
  An instance of the helper's part of the argument specification: the API token, a string
  without default, which is the one entry this module reads.
\<close>

definition token_spec :: spec where
  "token_spec = [(''api_token'', arg ''str'' PNone)]"

section \<open>Strings and dictionaries\<close>

lemma str_split_no_sep: "c \<notin> set s \<Longrightarrow> str_split c s = [s]"
  by (induction s) auto

lemma str_split_piece: "c \<notin> set a \<Longrightarrow> str_split c (a @ c # r) = a # str_split c r"
  by (induction a) auto

text \<open>
  Four pieces without the separator, each followed by a separator or by the end of the text,
  are the first four pieces of the split.
\<close>

lemma str_split_pieces:
  assumes "c \<notin> set p0" "c \<notin> set p1" "c \<notin> set p2" "c \<notin> set u"
    and "r = [] \<or> hd r = c"
  shows "\<exists>ws. str_split c (p0 @ c # p1 @ c # p2 @ c # u @ r) = p0 # p1 # p2 # u # ws"
proof (cases r)
  case Nil
  then show ?thesis using assms by (simp add: str_split_piece str_split_no_sep)
next
  case (Cons x xs)
  with assms have "r = c # xs" by simp
  then show ?thesis using assms by (simp add: str_split_piece)
qed

lemma ping_uuid_segment:
  assumes "map_of js ''ping_url'' = Some (PStr (p0 @ ''/'' @ p1 @ ''/'' @ p2 @ ''/'' @ u @ r))"
    and "CHR ''/'' \<notin> set p0" "CHR ''/'' \<notin> set p1" "CHR ''/'' \<notin> set p2"
    and "CHR ''/'' \<notin> set u"
    and "r = [] \<or> hd r = CHR ''/''"
  shows "ping_uuid (PDict js) = Inr u"
proof -
  obtain ws where
    "str_split CHR ''/'' (p0 @ CHR ''/'' # p1 @ CHR ''/'' # p2 @ CHR ''/'' # u @ r)
       = p0 # p1 # p2 # u # ws"
    using str_split_pieces [OF assms(2-6)] by blast
  then show ?thesis using assms(1)
    by (simp add: ping_uuid_def py_get_def dict_get_def py_split_def py_index_def)
qed

text \<open>A body that is no dictionary, or a dictionary without the key, has no identifier.\<close>

lemma ping_uuid_missing:
  assumes "\<forall>js. body = PDict js \<longrightarrow> map_of js ''ping_url'' = None"
  shows "ping_uuid body = Inl AttributeError"
  using assms
  by (cases body) (simp_all add: ping_uuid_def py_get_def dict_get_def py_split_def)

lemma py_join_strs: "py_join sep (PList (map PStr ts)) = Inr (join sep ts)"
  by (simp add: py_join_def list_all_iff is_str_def the_str_def comp_def)

section \<open>Dispatch\<close>

lemma run_dispatch:
  assumes "map_of (params m) ''state'' = Some (PStr st)"
    and "map_of (params m) ''api_token'' = Some tok"
  shows "run rest m =
    (if st = ''present'' then create rest (checks_of m tok)
     else if st = ''absent'' then delete rest (checks_of m tok)
     else if st = ''pause'' then pause rest (checks_of m tok)
     else (Returned, []))"
  using assms by (simp add: run_def dict_pop_def Checks_init_def delete_conv' checks_of_def)

lemma checks_of_simps:
  "check_mode (module (checks_of m tok)) = check_mode m"
  "map_of (params (module (checks_of m tok))) ''uuid'' = map_of (params m) ''uuid''"
  "map_of (params (module (checks_of m tok))) ''tags'' = map_of (params m) ''tags''"
  "dict_get (params (module (checks_of m tok))) ''uuid'' = dict_get (params m) ''uuid''"
  by (simp_all add: checks_of_def delete_conv' dict_get_def)

section \<open>The three operations on one response\<close>

lemma create_outcome:
  assumes "\<not> check_mode (module self)"
    and "map_of (params (module self)) ''uuid'' = Some u0"
    and "map_of (params (module self)) ''tags'' = Some (PList (map PStr ts))"
  shows "fst (create (remote_returning resp) self) =
    (case ping_uuid (json resp) of
       Inl e \<Rightarrow> Raised e
     | Inr uuid \<Rightarrow>
        if status_code resp = 200 then
          ExitJson \<lparr>changed = True,
                    msg = Some (''Existing check '' @ uuid @ '' found and updated''),
                    data = Some (json resp)\<rparr>
        else if status_code resp = 201 then
          ExitJson \<lparr>changed = True, msg = Some (''New check '' @ uuid @ '' created''),
                    data = Some (json resp)\<rparr>
        else
          FailJson \<lparr>changed = False,
                    msg = Some (''Failed to create or update delete check [HTTP ''
                                @ str_int (status_code resp) @ '']''),
                    data = None\<rparr>)"
  using assms
  by (simp add: create_def dict_del_def dict_get_default_def py_join_strs Let_def
        remote_returning_def split: sum.splits)

lemma create_request:
  assumes "\<not> check_mode (module self)"
    and "map_of (params (module self)) ''uuid'' = Some u0"
    and "map_of (params (module self)) ''tags'' = Some (PList (map PStr ts))"
  shows "snd (create rest self) =
     [POST ''checks/'' (Some (PDict (AList.update ''tags'' (PStr (join '' '' ts))
           (AList.delete ''uuid'' (params (module self))))))]"
  using assms
  by (simp add: create_def dict_del_def dict_get_default_def py_join_strs Let_def
        split: sum.splits)

lemma delete_outcome:
  assumes "\<not> check_mode (module self)"
  shows "delete (remote_returning resp) self =
    (let uuid = py_str (dict_get (params (module self)) ''uuid'') in
     (if status_code resp = 200 then
        ExitJson \<lparr>changed = True, msg = Some (''Check '' @ uuid @ '' successfully deleted''),
                  data = None\<rparr>
      else if status_code resp = 404 then
        ExitJson \<lparr>changed = False, msg = Some (''Check '' @ uuid @ '' not found''),
                  data = None\<rparr>
      else
        FailJson \<lparr>changed = False,
          msg = Some (''Failed delete check '' @ uuid @ '' [HTTP ''
                      @ str_int (status_code resp) @ '']''),
          data = None\<rparr>,
      [DELETE (''checks/'' @ uuid)]))"
  using assms by (simp add: delete_def Let_def remote_returning_def)

lemma pause_outcome:
  assumes "\<not> check_mode (module self)"
  shows "pause (remote_returning resp) self =
    (let uuid = py_str (dict_get (params (module self)) ''uuid'') in
     (if status_code resp = 200 then
        ExitJson \<lparr>changed = True, msg = Some (''Check '' @ uuid @ '' successfully paused''),
                  data = None\<rparr>
      else if status_code resp = 404 then
        ExitJson \<lparr>changed = False, msg = Some (''Check '' @ uuid @ '' not found''),
                  data = None\<rparr>
      else
        FailJson \<lparr>changed = False,
          msg = Some (''Failed delete check '' @ uuid @ '' [HTTP ''
                      @ str_int (status_code resp) @ '']''),
          data = None\<rparr>,
      [POST (''checks/'' @ uuid @ ''/pause'') None]))"
  using assms by (simp add: pause_def Let_def remote_returning_def)

section \<open>One request, one response\<close>

text \<open>
  An invocation issues at most one request, and its result depends on the remote only through
  the answer to that request. What is proved below for \<open>remote_returning\<close> therefore holds for
  every remote.
\<close>

lemma create_remote:
  assumes "snd (create rest self) = [req]"
  shows "create rest self = create (remote_returning (rest req)) self"
proof (cases "check_mode (module self)")
  case True
  then show ?thesis by (simp add: create_def)
next
  case False
  show ?thesis
  proof (cases "dict_del ''uuid'' (params (module self))")
    case (Inl e)
    with False show ?thesis by (simp add: create_def)
  next
    case del: (Inr rp)
    show ?thesis
    proof (cases "py_join '' '' (dict_get_default (params (module self)) ''tags'' (PList []))")
      case (Inl e)
      with False del show ?thesis by (simp add: create_def)
    next
      case (Inr t)
      with False del assms
      have "req = POST ''checks/'' (Some (PDict (AList.update ''tags'' (PStr t) rp)))"
        by (simp add: create_def Let_def split: sum.splits if_splits)
      with False del Inr show ?thesis
        by (simp add: create_def Let_def remote_returning_def)
    qed
  qed
qed

lemma delete_remote:
  assumes "snd (delete rest self) = [req]"
  shows "delete rest self = delete (remote_returning (rest req)) self"
  using assms
  by (simp add: delete_def remote_returning_def Let_def split: if_splits)

lemma pause_remote:
  assumes "snd (pause rest self) = [req]"
  shows "pause rest self = pause (remote_returning (rest req)) self"
  using assms
  by (simp add: pause_def remote_returning_def Let_def split: if_splits)

lemma run_remote:
  assumes "snd (run rest m) = [req]"
  shows "run rest m = run (remote_returning (rest req)) m"
proof (cases "dict_pop ''state'' (params m)")
  case (Inl e)
  then show ?thesis by (simp add: run_def)
next
  case (Inr sp)
  obtain state ps where sp: "sp = (state, ps)" by (cases sp)
  show ?thesis
  proof (cases "Checks_init (m\<lparr>params := ps\<rparr>)")
    case (Inl e)
    with Inr sp show ?thesis by (simp add: run_def)
  next
    case self: (Inr self)
    with Inr sp assms show ?thesis
      by (auto simp add: run_def split: if_splits
            intro: create_remote delete_remote pause_remote)
  qed
qed

lemma create_one_request: "length (snd (create rest self)) \<le> 1"
  by (simp add: create_def Let_def split: sum.splits)

lemma run_one_request: "length (snd (run rest m)) \<le> 1"
  using create_one_request
  by (simp add: run_def delete_def pause_def Let_def split: sum.splits prod.splits)

section \<open>Defaults and \<open>required_if\<close>\<close>

lemma set_defaults_keeps:
  assumes "map_of ps k \<noteq> None"
  shows "map_of (set_defaults b sp ps) k \<noteq> None"
  using assms unfolding set_defaults_def
  by (induction sp arbitrary: ps) auto

lemma set_defaults_Cons:
  "set_defaults b (x # xs) ps =
     set_defaults b xs
       (if map_of ps (fst x) = None
        then (if arg_default (snd x) = PNone
              then (if b then ps @ [(fst x, PNone)] else ps)
              else ps @ [(fst x, arg_default (snd x))])
        else ps)"
  by (simp add: set_defaults_def)

lemma set_defaults_adds:
  assumes "(k, a) \<in> set sp" and "arg_default a \<noteq> PNone"
  shows "map_of (set_defaults b sp ps) k \<noteq> None"
  using assms
proof (induction sp arbitrary: ps)
  case Nil
  then show ?case by simp
next
  case (Cons x xs)
  show ?case
  proof (cases "x = (k, a)")
    case True
    let ?ps = "if map_of ps k = None then ps @ [(k, arg_default a)] else ps"
    have "map_of ?ps k \<noteq> None" by (simp add: map_add_def)
    then have "map_of (set_defaults b xs ?ps) k \<noteq> None"
      by (rule set_defaults_keeps)
    moreover have "set_defaults b (x # xs) ps = set_defaults b xs ?ps"
      using True Cons.prems(2) by (simp add: set_defaults_Cons)
    ultimately show ?thesis by simp
  next
    case False
    with Cons.prems have "(k, a) \<in> set xs" by simp
    then have "\<And>ps'. map_of (set_defaults b xs ps') k \<noteq> None"
      using Cons.IH Cons.prems(2) by blast
    then show ?thesis
      unfolding set_defaults_Cons by blast
  qed
qed


lemma argument_spec_uuid:
  "map_of (argument_spec helper_spec) ''uuid'' = Some (arg ''str'' (PStr []))"
  by (simp add: argument_spec_def update_conv')

text \<open>
  Whatever the helper contributes and whatever the task gives, \<open>uuid\<close> is a key of the
  parameters after the first pass of the defaults, and \<^verbatim>\<open>required_if\<close> is satisfied.
\<close>

lemma required_if_passes:
  "check_required_if required_if (set_defaults False (argument_spec helper_spec) args)"
proof -
  have "(''uuid'', arg ''str'' (PStr [])) \<in> set (argument_spec helper_spec)"
    using argument_spec_uuid by (rule map_of_SomeD)
  then have "map_of (set_defaults False (argument_spec helper_spec) args) ''uuid'' \<noteq> None"
    by (rule set_defaults_adds) (simp add: arg_def)
  then show ?thesis
    by (simp add: check_required_if_def required_if_def)
qed

lemmas evals =
  remote_returning_def run_def dict_pop_def Checks_init_def create_def delete_def pause_def
  dict_del_def dict_get_default_def py_join_def ping_uuid_def py_get_def dict_get_def
  py_split_def py_index_def py_str_def Let_def task_params_def nightly_backup_def
  created_body_def updated_body_def error_body_def delete_abc_def pause_abc_def

section \<open>Creating and updating\<close>

text \<open>
  C1 (as amended). For \<open>state = present\<close> outside check mode, a 201 response whose body carries
  a textual \<open>ping_url\<close> ends the invocation with \<open>changed = True\<close>, the message
  \<open>New check u created\<close> and the body as data, where \<open>u\<close> is the piece of \<open>ping_url\<close> that
  follows its third \<open>/\<close> and runs to the next \<open>/\<close> or to the end. The parameters are those
  \<^verbatim>\<open>AnsibleModule\<close> delivers: \<open>api_token\<close> and \<open>uuid\<close> are keys, \<open>tags\<close> is a list of strings.
\<close>

theorem created_message:
  assumes "map_of (params m) ''state'' = Some (PStr ''present'')"
    and "map_of (params m) ''api_token'' = Some tok"
    and "map_of (params m) ''uuid'' = Some u0"
    and "map_of (params m) ''tags'' = Some (PList (map PStr ts))"
    and "\<not> check_mode m"
    and "status_code resp = 201"
    and "json resp = PDict js"
    and "map_of js ''ping_url'' = Some (PStr (p0 @ ''/'' @ p1 @ ''/'' @ p2 @ ''/'' @ u @ r))"
    and "CHR ''/'' \<notin> set p0" "CHR ''/'' \<notin> set p1" "CHR ''/'' \<notin> set p2"
    and "CHR ''/'' \<notin> set u"
    and "r = [] \<or> hd r = CHR ''/''"
  shows "fst (run (remote_returning resp) m) =
     ExitJson \<lparr>changed = True, msg = Some (''New check '' @ u @ '' created''),
               data = Some (PDict js)\<rparr>"
proof -
  have "ping_uuid (json resp) = Inr u"
    using assms(7) ping_uuid_segment [OF assms(8-13)] by simp
  moreover have "run (remote_returning resp) m = create (remote_returning resp) (checks_of m tok)"
    using run_dispatch [OF assms(1,2)] by simp
  ultimately show ?thesis
    using assms(3-7)
    by (simp add: create_outcome [where ts = ts and ?u0.0 = u0] checks_of_simps)
qed

text \<open>
  The nightly-backup task with the body \<open>{"ping_url": "https://x/ping/UUID-1/"}\<close>: the piece
  after the third \<open>/\<close> is \<open>ping\<close>.
\<close>

theorem created_message_witness:
  "fst (run (remote_returning \<lparr>json = created_body, status_code = 201\<rparr>) nightly_backup) =
     ExitJson \<lparr>changed = True, msg = Some ''New check ping created'',
               data = Some created_body\<rparr>"
  using created_message [of nightly_backup "PStr ''secret''" "PStr []" "[]"
      "\<lparr>json = created_body, status_code = 201\<rparr>"
      "[(''ping_url'', PStr ''https://x/ping/UUID-1/'')]"
      "''https:''" "[]" "''x''" "''ping''" "''/UUID-1/''"]
  by (simp add: nightly_backup_def task_params_def created_body_def)

text \<open>The result stated for that task, with the message \<open>New check UUID-1 created\<close>, is not
  what the invocation returns.\<close>

theorem created_example_counterexample:
  "fst (run (remote_returning \<lparr>json = created_body, status_code = 201\<rparr>) nightly_backup) \<noteq>
     ExitJson \<lparr>changed = True, msg = Some ''New check UUID-1 created'',
               data = Some created_body\<rparr>"
  by (simp add: evals)

text \<open>
  C8. For \<open>state = present\<close> outside check mode, a 200 response ends the invocation with
  \<open>changed = True\<close> and the message \<open>Existing check u found and updated\<close>, the identifier
  \<open>u\<close> being taken from \<open>ping_url\<close> by the rule of the 201 case (the piece after the third
  \<open>/\<close>); the whole response body is the data of the result.
\<close>

theorem updated_message:
  assumes "map_of (params m) ''state'' = Some (PStr ''present'')"
    and "map_of (params m) ''api_token'' = Some tok"
    and "map_of (params m) ''uuid'' = Some u0"
    and "map_of (params m) ''tags'' = Some (PList (map PStr ts))"
    and "\<not> check_mode m"
    and "status_code resp = 200"
    and "json resp = PDict js"
    and "map_of js ''ping_url'' = Some (PStr (p0 @ ''/'' @ p1 @ ''/'' @ p2 @ ''/'' @ u @ r))"
    and "CHR ''/'' \<notin> set p0" "CHR ''/'' \<notin> set p1" "CHR ''/'' \<notin> set p2"
    and "CHR ''/'' \<notin> set u"
    and "r = [] \<or> hd r = CHR ''/''"
  shows "fst (run (remote_returning resp) m) =
     ExitJson \<lparr>changed = True, msg = Some (''Existing check '' @ u @ '' found and updated''),
               data = Some (PDict js)\<rparr>"
proof -
  have "ping_uuid (json resp) = Inr u"
    using assms(7) ping_uuid_segment [OF assms(8-13)] by simp
  moreover have "run (remote_returning resp) m = create (remote_returning resp) (checks_of m tok)"
    using run_dispatch [OF assms(1,2)] by simp
  ultimately show ?thesis
    using assms(3-7)
    by (simp add: create_outcome [where ts = ts and ?u0.0 = u0] checks_of_simps)
qed

text \<open>The nightly-backup task, matched by an existing check of the hosted service.\<close>

theorem updated_message_witness:
  "fst (run (remote_returning \<lparr>json = updated_body, status_code = 200\<rparr>) nightly_backup) =
     ExitJson \<lparr>changed = True, msg = Some ''Existing check UUID-1 found and updated'',
               data = Some updated_body\<rparr>"
  using updated_message [of nightly_backup "PStr ''secret''" "PStr []" "[]"
      "\<lparr>json = updated_body, status_code = 200\<rparr>"
      "[(''name'', PStr ''nightly-backup''), (''ping_url'', PStr ''https://hc-ping.com/UUID-1''),
        (''status'', PStr ''new'')]"
      "''https:''" "[]" "''hc-ping.com''" "''UUID-1''" "[]"]
  by (simp add: nightly_backup_def task_params_def updated_body_def)

text \<open>
  C9 (as amended). For \<open>state = present\<close> outside check mode, exactly one request is issued,
  a POST to \<open>checks/\<close>, and its body holds every parameter of the invocation other than
  \<open>state\<close>, \<open>api_token\<close> and \<open>uuid\<close>, each with its value, except that \<open>tags\<close> is the text of
  the tags joined by single spaces. The identifier is not sent.
\<close>

theorem request_body:
  assumes "map_of (params m) ''state'' = Some (PStr ''present'')"
    and "map_of (params m) ''api_token'' = Some tok"
    and "map_of (params m) ''uuid'' = Some u0"
    and "map_of (params m) ''tags'' = Some (PList (map PStr ts))"
    and "\<not> check_mode m"
  shows "\<exists>body. snd (run rest m) = [POST ''checks/'' (Some (PDict body))]
           \<and> map_of body = (map_of (params m))
                 (''state'' := None, ''api_token'' := None, ''uuid'' := None,
                  ''tags'' := Some (PStr (join '' '' ts)))"
proof -
  have "run rest m = create rest (checks_of m tok)"
    using run_dispatch [OF assms(1,2)] by simp
  then show ?thesis
    using assms(3-5)
    by (simp add: create_request [where ts = ts and ?u0.0 = u0] checks_of_simps
          update_conv' delete_conv')
       (simp add: checks_of_def delete_conv')
qed

text \<open>A task with two tags: the body carries \<open>prod web\<close>, and neither \<open>state\<close>, \<open>api_token\<close>
  nor \<open>uuid\<close>.\<close>

theorem request_body_witness:
  "\<exists>body.
     snd (run (remote_returning \<lparr>json = created_body, status_code = 201\<rparr>)
            \<lparr>params = [(''state'', PStr ''present''), (''api_token'', PStr ''secret''),
                       (''name'', PStr ''web''), (''tags'', PList [PStr ''prod'', PStr ''web'']),
                       (''uuid'', PStr [])],
              check_mode = False\<rparr>)
       = [POST ''checks/'' (Some (PDict body))]
     \<and> map_of body ''name'' = Some (PStr ''web'')
     \<and> map_of body ''tags'' = Some (PStr ''prod web'')
     \<and> map_of body ''state'' = None
     \<and> map_of body ''api_token'' = None
     \<and> map_of body ''uuid'' = None"
  using request_body [of
      "\<lparr>params = [(''state'', PStr ''present''), (''api_token'', PStr ''secret''),
                 (''name'', PStr ''web''), (''tags'', PList [PStr ''prod'', PStr ''web'']),
                 (''uuid'', PStr [])],
        check_mode = False\<rparr>"
      "PStr ''secret''" "PStr []" "[''prod'', ''web'']"
      "remote_returning \<lparr>json = created_body, status_code = 201\<rparr>"]
  by auto

text \<open>The nightly-backup task has the parameter \<open>state\<close>, and the body it sends has not.\<close>

theorem request_body_counterexample:
  "snd (run (remote_returning \<lparr>json = created_body, status_code = 201\<rparr>) nightly_backup)
     = [POST ''checks/'' (Some (PDict nightly_backup_body))]
   \<and> map_of (params nightly_backup) ''state'' = Some (PStr ''present'')
   \<and> map_of nightly_backup_body ''state'' = None"
  by (simp add: evals nightly_backup_body_def)

text \<open>
  C10. For \<open>state = present\<close> outside check mode, the identifier is taken from the body before
  the status is looked at: when the body is a dictionary without \<open>ping_url\<close>, the invocation
  ends with an \<^verbatim>\<open>AttributeError\<close>, whatever the status, and reaches neither \<^verbatim>\<open>fail_json\<close> nor
  one of the two \<^verbatim>\<open>exit_json\<close> calls.
\<close>

theorem missing_ping_url_raises:
  assumes "map_of (params m) ''state'' = Some (PStr ''present'')"
    and "map_of (params m) ''api_token'' = Some tok"
    and "map_of (params m) ''uuid'' = Some u0"
    and "map_of (params m) ''tags'' = Some (PList (map PStr ts))"
    and "\<not> check_mode m"
    and "json resp = PDict js"
    and "map_of js ''ping_url'' = None"
  shows "fst (run (remote_returning resp) m) = Raised AttributeError"
proof -
  have "ping_uuid (json resp) = Inl AttributeError"
    using assms(6,7) by (simp add: ping_uuid_missing)
  moreover have "run (remote_returning resp) m = create (remote_returning resp) (checks_of m tok)"
    using run_dispatch [OF assms(1,2)] by simp
  ultimately show ?thesis
    using assms(3-5)
    by (simp add: create_outcome [where ts = ts and ?u0.0 = u0] checks_of_simps)
qed

text \<open>A 201 and a 500 response without \<open>ping_url\<close> both end in the exception.\<close>

theorem missing_ping_url_raises_witness:
  "fst (run (remote_returning \<lparr>json = PDict [(''name'', PStr ''nightly-backup'')],
                               status_code = 201\<rparr>) nightly_backup) = Raised AttributeError
   \<and> fst (run (remote_returning \<lparr>json = PDict [], status_code = 500\<rparr>) nightly_backup)
       = Raised AttributeError"
  using missing_ping_url_raises [of nightly_backup "PStr ''secret''" "PStr []" "[]"
      "\<lparr>json = PDict [(''name'', PStr ''nightly-backup'')], status_code = 201\<rparr>"
      "[(''name'', PStr ''nightly-backup'')]"]
    missing_ping_url_raises [of nightly_backup "PStr ''secret''" "PStr []" "[]"
      "\<lparr>json = PDict [], status_code = 500\<rparr>" "[]"]
  by (simp add: nightly_backup_def task_params_def)

text \<open>
  C3. For \<open>state = present\<close> outside check mode, a status other than 200 and 201 is meant to
  end in \<^verbatim>\<open>fail_json\<close> with the status in the message. For the refusal of a wrong API key,
  status 401 with the body \<open>{"error": "wrong api key"}\<close>, the invocation ends instead with an
  \<^verbatim>\<open>AttributeError\<close>: the identifier is taken from the body first.
\<close>

theorem error_status_raises:
  "fst (run (remote_returning \<lparr>json = error_body, status_code = 401\<rparr>) nightly_backup)
     = Raised AttributeError"
  by (simp add: evals)

section \<open>Deleting and pausing\<close>

text \<open>
  C4. For \<open>state = absent\<close> and \<open>state = pause\<close> outside check mode, a status other than 200
  and 404 ends the invocation in \<^verbatim>\<open>fail_json\<close> with \<open>changed = False\<close>; on both paths the
  message is \<open>Failed delete check\<close>, the identifier, and the status in decimal after \<open>HTTP\<close>.
\<close>

theorem delete_pause_failure:
  assumes "map_of (params m) ''state'' = Some (PStr st)"
    and "st = ''absent'' \<or> st = ''pause''"
    and "map_of (params m) ''api_token'' = Some tok"
    and "\<not> check_mode m"
    and "status_code resp \<noteq> 200" and "status_code resp \<noteq> 404"
  shows "fst (run (remote_returning resp) m) =
     FailJson \<lparr>changed = False,
        msg = Some (''Failed delete check '' @ py_str (dict_get (params m) ''uuid'')
                    @ '' [HTTP '' @ str_int (status_code resp) @ '']''),
        data = None\<rparr>"
  using assms(2,4-6) run_dispatch [OF assms(1,3)]
  by (auto simp add: delete_outcome pause_outcome checks_of_simps Let_def)

theorem delete_pause_failure_witness:
  "fst (run (remote_returning \<lparr>json = PNone, status_code = 500\<rparr>) delete_abc) =
     FailJson \<lparr>changed = False, msg = Some ''Failed delete check abc-123 [HTTP 500]'',
               data = None\<rparr>
   \<and> fst (run (remote_returning \<lparr>json = PNone, status_code = 500\<rparr>) pause_abc) =
     FailJson \<lparr>changed = False, msg = Some ''Failed delete check abc-123 [HTTP 500]'',
               data = None\<rparr>"
  using delete_pause_failure [of delete_abc "''absent''" "PStr ''secret''"
      "\<lparr>json = PNone, status_code = 500\<rparr>"]
    delete_pause_failure [of pause_abc "''pause''" "PStr ''secret''"
      "\<lparr>json = PNone, status_code = 500\<rparr>"]
  by (simp add: delete_abc_def pause_abc_def task_params_def dict_get_def py_str_def
        str_int_def str_nat.simps digit_char_def)

text \<open>
  C5. In check mode, for each of the three states, the invocation issues no request and ends
  in \<^verbatim>\<open>exit_json\<close> with \<open>changed = False\<close> and empty data.
\<close>

theorem check_mode_no_request:
  assumes "map_of (params m) ''state'' = Some (PStr st)"
    and "st = ''present'' \<or> st = ''absent'' \<or> st = ''pause''"
    and "map_of (params m) ''api_token'' = Some tok"
    and "check_mode m"
  shows "run rest m = (ExitJson \<lparr>changed = False, msg = None, data = Some (PDict [])\<rparr>, [])"
  using assms(2,4) run_dispatch [OF assms(1,3)]
  by (auto simp add: create_def delete_def pause_def checks_of_simps)

theorem check_mode_no_request_witness:
  "run (remote_returning \<lparr>json = created_body, status_code = 201\<rparr>)
       (nightly_backup\<lparr>check_mode := True\<rparr>)
     = (ExitJson \<lparr>changed = False, msg = None, data = Some (PDict [])\<rparr>, [])
   \<and> run (remote_returning \<lparr>json = PNone, status_code = 200\<rparr>)
         (delete_abc\<lparr>check_mode := True\<rparr>)
     = (ExitJson \<lparr>changed = False, msg = None, data = Some (PDict [])\<rparr>, [])
   \<and> run (remote_returning \<lparr>json = PNone, status_code = 200\<rparr>)
         (pause_abc\<lparr>check_mode := True\<rparr>)
     = (ExitJson \<lparr>changed = False, msg = None, data = Some (PDict [])\<rparr>, [])"
  using check_mode_no_request [of "nightly_backup\<lparr>check_mode := True\<rparr>" "''present''"
      "PStr ''secret''" "remote_returning \<lparr>json = created_body, status_code = 201\<rparr>"]
    check_mode_no_request [of "delete_abc\<lparr>check_mode := True\<rparr>" "''absent''"
      "PStr ''secret''" "remote_returning \<lparr>json = PNone, status_code = 200\<rparr>"]
    check_mode_no_request [of "pause_abc\<lparr>check_mode := True\<rparr>" "''pause''"
      "PStr ''secret''" "remote_returning \<lparr>json = PNone, status_code = 200\<rparr>"]
  by (simp add: nightly_backup_def delete_abc_def pause_abc_def task_params_def)

text \<open>
  C6. For \<open>state = absent\<close> and \<open>state = pause\<close> outside check mode, a 404 response ends the
  invocation in \<^verbatim>\<open>exit_json\<close>, not in a failure, with \<open>changed = False\<close> and the message
  \<open>Check\<close>, the identifier, \<open>not found\<close>.
\<close>

theorem not_found_unchanged:
  assumes "map_of (params m) ''state'' = Some (PStr st)"
    and "st = ''absent'' \<or> st = ''pause''"
    and "map_of (params m) ''api_token'' = Some tok"
    and "\<not> check_mode m"
    and "status_code resp = 404"
  shows "fst (run (remote_returning resp) m) =
     ExitJson \<lparr>changed = False,
        msg = Some (''Check '' @ py_str (dict_get (params m) ''uuid'') @ '' not found''),
        data = None\<rparr>"
  using assms(2,4,5) run_dispatch [OF assms(1,3)]
  by (auto simp add: delete_outcome pause_outcome checks_of_simps Let_def)

text \<open>The task \<open>{state: absent, uuid: abc-123}\<close> against a remote that answers 404, and the
  same for \<open>pause\<close>.\<close>

theorem not_found_unchanged_witness:
  "fst (run (remote_returning \<lparr>json = PNone, status_code = 404\<rparr>) delete_abc) =
     ExitJson \<lparr>changed = False, msg = Some ''Check abc-123 not found'', data = None\<rparr>
   \<and> fst (run (remote_returning \<lparr>json = PNone, status_code = 404\<rparr>) pause_abc) =
     ExitJson \<lparr>changed = False, msg = Some ''Check abc-123 not found'', data = None\<rparr>"
  using not_found_unchanged [of delete_abc "''absent''" "PStr ''secret''"
      "\<lparr>json = PNone, status_code = 404\<rparr>"]
    not_found_unchanged [of pause_abc "''pause''" "PStr ''secret''"
      "\<lparr>json = PNone, status_code = 404\<rparr>"]
  by (simp add: delete_abc_def pause_abc_def task_params_def dict_get_def py_str_def)

text \<open>
  C7. For \<open>state = absent\<close> and \<open>state = pause\<close> outside check mode, a 200 response ends the
  invocation in \<^verbatim>\<open>exit_json\<close> with \<open>changed = True\<close>.
\<close>

theorem ok_changed:
  assumes "map_of (params m) ''state'' = Some (PStr st)"
    and "st = ''absent'' \<or> st = ''pause''"
    and "map_of (params m) ''api_token'' = Some tok"
    and "\<not> check_mode m"
    and "status_code resp = 200"
  shows "fst (run (remote_returning resp) m) =
     ExitJson \<lparr>changed = True,
        msg = Some (''Check '' @ py_str (dict_get (params m) ''uuid'')
                    @ (if st = ''absent'' then '' successfully deleted''
                       else '' successfully paused'')),
        data = None\<rparr>"
  using assms(2,4,5) run_dispatch [OF assms(1,3)]
  by (auto simp add: delete_outcome pause_outcome checks_of_simps Let_def)

theorem ok_changed_witness:
  "fst (run (remote_returning \<lparr>json = PNone, status_code = 200\<rparr>) delete_abc) =
     ExitJson \<lparr>changed = True, msg = Some ''Check abc-123 successfully deleted'',
               data = None\<rparr>
   \<and> fst (run (remote_returning \<lparr>json = PNone, status_code = 200\<rparr>) pause_abc) =
     ExitJson \<lparr>changed = True, msg = Some ''Check abc-123 successfully paused'',
               data = None\<rparr>"
  using ok_changed [of delete_abc "''absent''" "PStr ''secret''"
      "\<lparr>json = PNone, status_code = 200\<rparr>"]
    ok_changed [of pause_abc "''pause''" "PStr ''secret''"
      "\<lparr>json = PNone, status_code = 200\<rparr>"]
  by (simp add: delete_abc_def pause_abc_def task_params_def dict_get_def py_str_def)

section \<open>A task without an identifier\<close>

text \<open>
  C2. A task with \<open>state = absent\<close> that gives no \<open>uuid\<close> is meant to be rejected by
  \<^verbatim>\<open>required_if\<close> before any request. The specification gives \<open>uuid\<close> the default \<open>""\<close>, the
  first pass of the defaults puts it among the parameters, and \<^verbatim>\<open>required_if\<close> finds the key:
  the task is accepted and a DELETE for \<open>checks/\<close> is issued.
\<close>

theorem missing_uuid_not_rejected:
  "main token_spec (remote_returning \<lparr>json = PNone, status_code = 404\<rparr>)
        [(''state'', PStr ''absent''), (''api_token'', PStr ''secret'')] False =
   (ExitJson \<lparr>changed = False, msg = Some ''Check  not found'', data = None\<rparr>,
    [DELETE ''checks/''])"
  by (simp add: main_def AnsibleModule_def argument_spec_def required_if_def set_defaults_def
        check_choices_def check_required_if_def arg_def token_spec_def evals)

end
